theory Spec2Isabelle
  imports Complex_Main "HOL-Library.Product_Lexorder" "HOL-Library.List_Lexorder"
begin

section \<open>Values, columns and dataframes\<close>

text \<open>
  The pipeline of \<^verbatim>\<open>src/data/processor.py\<close> works on pandas dataframes. A float64 value is
  modelled by \<open>fl\<close>: a finite value is the real number it stands for, and the three special
  values of IEEE arithmetic are kept as they are, since the guards of the code are about
  them. Every arithmetic operation rounds its exact result to the format (\<open>b64\<close> below), so
  that a quotient is the one the machine computes. The sign of zero is not modelled: a zero
  is read as \<open>+0.0\<close>.
  A cell of a dataframe is a float (\<open>NaN\<close> is also the missing value), a text or a parsed
  date (a day number). A whole number of a CSV file is the float of the same value.
\<close>

datatype error = KeyError | TypeError | ValueError | AttributeError | FileNotFoundError

datatype fl = Fin real | PInf | NInf | NaN

datatype cell = F fl | Str string | Date nat

text \<open>A dataframe: its columns in order, each with its values (all of one length).\<close>

type_synonym frame = "(string \<times> cell list) list"

definition ebind :: "error + 'a \<Rightarrow> ('a \<Rightarrow> error + 'b) \<Rightarrow> error + 'b" where
  "ebind m f = (case m of Inl e \<Rightarrow> Inl e | Inr x \<Rightarrow> f x)"

subsection \<open>Rounding to float64\<close>

text \<open>Rounding to the nearest whole number, a tie to the even one (\<^verbatim>\<open>rint\<close>).\<close>

definition rint :: "real \<Rightarrow> int" where
  "rint x = (let f = \<lfloor>x\<rfloor>; d = x - of_int f in
     if d < 1 / 2 then f else if 1 / 2 < d then f + 1 else if even f then f else f + 1)"

text \<open>
  The float64 values with \<open>2 ^ e \<le> \<bar>x\<bar> < 2 ^ (e + 1)\<close> are the multiples of \<open>2 ^ (e - 52)\<close>
  (a significand of 53 bits); the least exponent is \<open>-1022\<close>, and the numbers below
  \<open>2 ^ (-1022)\<close> are spaced like those of that exponent (the subnormal numbers).
\<close>

definition binade :: "real \<Rightarrow> int" where
  "binade x = max \<lfloor>log 2 \<bar>x\<bar>\<rfloor> (- 1022)"

text \<open>
  \<open>b64 x\<close> is the float64 value of the real number \<open>x\<close> under the rounding of IEEE 754 that
  the machine uses (to the nearest value, a tie to the one with an even significand): \<open>x\<close>
  is rounded to a multiple of the spacing at \<open>x\<close>, and a result of magnitude \<open>2 ^ 1024\<close>
  is an infinity (overflow).
\<close>

definition b64 :: "real \<Rightarrow> fl" where
  "b64 x =
     (if x = 0 then Fin 0
      else let u = 2 powi (binade x - 52);
               y = of_int (rint (x / u)) * u
           in if 2 ^ 1024 \<le> \<bar>y\<bar> then (if 0 < x then PInf else NInf) else Fin y)"

text \<open>The real numbers that are float64 values.\<close>

definition is_b64 :: "real \<Rightarrow> bool" where
  "is_b64 x = (b64 x = Fin x)"

subsection \<open>Float arithmetic with the special values\<close>

fun fl_neg :: "fl \<Rightarrow> fl" where
  "fl_neg (Fin a) = Fin (- a)"
| "fl_neg PInf = NInf"
| "fl_neg NInf = PInf"
| "fl_neg NaN = NaN"

fun fl_add :: "fl \<Rightarrow> fl \<Rightarrow> fl" where
  "fl_add NaN _ = NaN"
| "fl_add _ NaN = NaN"
| "fl_add (Fin a) (Fin b) = b64 (a + b)"
| "fl_add PInf NInf = NaN"
| "fl_add NInf PInf = NaN"
| "fl_add PInf _ = PInf"
| "fl_add _ PInf = PInf"
| "fl_add NInf _ = NInf"
| "fl_add _ NInf = NInf"

definition fl_sub :: "fl \<Rightarrow> fl \<Rightarrow> fl" where
  "fl_sub a b = fl_add a (fl_neg b)"

fun fl_mul :: "fl \<Rightarrow> fl \<Rightarrow> fl" where
  "fl_mul NaN _ = NaN"
| "fl_mul _ NaN = NaN"
| "fl_mul (Fin a) (Fin b) = b64 (a * b)"
| "fl_mul PInf (Fin b) = (if b = 0 then NaN else if 0 < b then PInf else NInf)"
| "fl_mul NInf (Fin b) = (if b = 0 then NaN else if 0 < b then NInf else PInf)"
| "fl_mul (Fin a) PInf = (if a = 0 then NaN else if 0 < a then PInf else NInf)"
| "fl_mul (Fin a) NInf = (if a = 0 then NaN else if 0 < a then NInf else PInf)"
| "fl_mul PInf PInf = PInf"
| "fl_mul NInf NInf = PInf"
| "fl_mul PInf NInf = NInf"
| "fl_mul NInf PInf = NInf"

text \<open>Division as numpy does it under \<^verbatim>\<open>warnings.filterwarnings('ignore')\<close>: \<open>0/0\<close> is NaN
  and \<open>x/0\<close> is an infinity of the sign of \<open>x\<close>; nothing is raised.\<close>

fun fl_div :: "fl \<Rightarrow> fl \<Rightarrow> fl" where
  "fl_div NaN _ = NaN"
| "fl_div _ NaN = NaN"
| "fl_div (Fin a) (Fin b) =
     (if b \<noteq> 0 then b64 (a / b) else if a = 0 then NaN else if 0 < a then PInf else NInf)"
| "fl_div (Fin a) PInf = Fin 0"
| "fl_div (Fin a) NInf = Fin 0"
| "fl_div PInf (Fin b) = (if 0 \<le> b then PInf else NInf)"
| "fl_div NInf (Fin b) = (if 0 \<le> b then NInf else PInf)"
| "fl_div PInf PInf = NaN"
| "fl_div PInf NInf = NaN"
| "fl_div NInf PInf = NaN"
| "fl_div NInf NInf = NaN"

text \<open>The comparison \<^verbatim>\<open>x > 0\<close>: false on NaN.\<close>

fun fl_pos :: "fl \<Rightarrow> bool" where
  "fl_pos (Fin a) = (0 < a)"
| "fl_pos PInf = True"
| "fl_pos NInf = False"
| "fl_pos NaN = False"

text \<open>
  \<^verbatim>\<open>round(2)\<close> on a float column is numpy's \<^verbatim>\<open>round\<close>, which computes
  \<^verbatim>\<open>rint(x * 100) / 100\<close> in float arithmetic: the product and the quotient are rounded to
  the format like every other operation.
\<close>

fun fl_rint :: "fl \<Rightarrow> fl" where
  "fl_rint (Fin a) = Fin (of_int (rint a))"
| "fl_rint PInf = PInf"
| "fl_rint NInf = NInf"
| "fl_rint NaN = NaN"

definition fl_round2 :: "fl \<Rightarrow> fl" where
  "fl_round2 x = fl_div (fl_rint (fl_mul x (Fin 100))) (Fin 100)"

subsection \<open>Series (columns)\<close>

text \<open>Arithmetic on a column holding a text (an object column) or a date raises TypeError.\<close>

fun as_float :: "cell \<Rightarrow> error + fl" where
  "as_float (F x) = Inr x"
| "as_float (Str s) = Inl TypeError"
| "as_float (Date d) = Inl TypeError"

fun floats :: "cell list \<Rightarrow> error + fl list" where
  "floats [] = Inr []"
| "floats (c # cs) = ebind (as_float c) (\<lambda>x. ebind (floats cs) (\<lambda>xs. Inr (x # xs)))"

definition s_div :: "cell list \<Rightarrow> cell list \<Rightarrow> error + cell list" where
  "s_div xs ys = ebind (floats xs) (\<lambda>a. ebind (floats ys) (\<lambda>b.
     Inr (map F (map2 fl_div a b))))"

definition s_mul_const :: "cell list \<Rightarrow> real \<Rightarrow> error + cell list" where
  "s_mul_const xs k = ebind (floats xs) (\<lambda>a. Inr (map (\<lambda>x. F (fl_mul x (Fin k))) a))"

definition s_div_const :: "cell list \<Rightarrow> real \<Rightarrow> error + cell list" where
  "s_div_const xs k = ebind (floats xs) (\<lambda>a. Inr (map (\<lambda>x. F (fl_div x (Fin k))) a))"

text \<open>\<^verbatim>\<open>fillna(0)\<close> replaces the missing value only; \<^verbatim>\<open>round(2)\<close> touches floats only.\<close>

fun fillna0_cell :: "cell \<Rightarrow> cell" where
  "fillna0_cell (F NaN) = F (Fin 0)"
| "fillna0_cell c = c"

definition s_fillna0 :: "cell list \<Rightarrow> cell list" where
  "s_fillna0 xs = map fillna0_cell xs"

fun round2_cell :: "cell \<Rightarrow> cell" where
  "round2_cell (F x) = F (fl_round2 x)"
| "round2_cell c = c"

definition s_round2 :: "cell list \<Rightarrow> cell list" where
  "s_round2 xs = map round2_cell xs"

subsection \<open>Dataframe access\<close>

definition columns :: "frame \<Rightarrow> string list" where
  "columns df = map fst df"

definition nrows :: "frame \<Rightarrow> nat" where
  "nrows df = (case df of [] \<Rightarrow> 0 | (c, vs) # _ \<Rightarrow> length vs)"

text \<open>\<^verbatim>\<open>df[col]\<close> raises KeyError on a column that is not there.\<close>

definition getitem :: "frame \<Rightarrow> string \<Rightarrow> error + cell list" where
  "getitem df col = (case map_of df col of None \<Rightarrow> Inl KeyError | Some vs \<Rightarrow> Inr vs)"

text \<open>A Python dictionary in insertion order: \<^verbatim>\<open>d[k] = v\<close> replaces the value where the key
  stands, or adds the entry last.\<close>

fun dict_set :: "('k \<times> 'v) list \<Rightarrow> 'k \<Rightarrow> 'v \<Rightarrow> ('k \<times> 'v) list" where
  "dict_set [] k v = [(k, v)]"
| "dict_set ((k', v') # d) k v = (if k' = k then (k', v) # d else (k', v') # dict_set d k v)"

text \<open>\<^verbatim>\<open>df[col] = values\<close> does the same to the columns of a dataframe.\<close>

definition setitem :: "frame \<Rightarrow> string \<Rightarrow> cell list \<Rightarrow> frame" where
  "setitem df col vs = dict_set df col vs"


section \<open>The processor: a heap of dataframes and the object's fields\<close>

text \<open>
  Dataframes are mutable objects that the processor's fields refer to, so a state is a heap
  of dataframes (an address is an index; a new object is appended) with the three fields
  of \<^verbatim>\<open>DataProcessor\<close>. The dictionary \<^verbatim>\<open>marketing_dfs\<close> keeps its insertion order.
\<close>

type_synonym addr = nat

record state =
  heap :: "frame list"
  business_df :: "addr option"
  marketing_dfs :: "(string \<times> addr) list"
  combined_df :: "addr option"

definition init :: state where
  "init = \<lparr>heap = [], business_df = None, marketing_dfs = [], combined_df = None\<rparr>"

definition alloc :: "frame \<Rightarrow> state \<Rightarrow> addr \<times> state" where
  "alloc df s = (length (heap s), s\<lparr>heap := heap s @ [df]\<rparr>)"

text \<open>\<^verbatim>\<open>df.copy()\<close>: a new object with the same content.\<close>

definition copy :: "addr \<Rightarrow> state \<Rightarrow> addr \<times> state" where
  "copy a s = alloc (heap s ! a) s"

definition setitem_at :: "addr \<Rightarrow> string \<Rightarrow> cell list \<Rightarrow> state \<Rightarrow> state" where
  "setitem_at a col vs s = s\<lparr>heap := (heap s)[a := setitem (heap s ! a) col vs]\<rparr>"

definition PLATFORMS :: "string list" where
  "PLATFORMS = [''Facebook'', ''Google'', ''TikTok'']"

definition MARKETING_COLUMNS :: "string list" where
  "MARKETING_COLUMNS = [''impression'', ''clicks'', ''spend'', ''attributed revenue'']"

subsection \<open>KPIs of one platform\<close>

text \<open>The dictionary \<^verbatim>\<open>kpis\<close> of \<^verbatim>\<open>_calculate_platform_kpis\<close>, its entries evaluated in order.\<close>

definition platform_kpis :: "frame \<Rightarrow> error + (string \<times> cell list) list" where
  "platform_kpis df =
     ebind (getitem df ''clicks'') (\<lambda>clicks.
     ebind (getitem df ''impression'') (\<lambda>impression.
     ebind (s_div clicks impression) (\<lambda>q1.
     ebind (s_mul_const q1 100) (\<lambda>ctr.
     ebind (getitem df ''spend'') (\<lambda>spend.
     ebind (s_div spend clicks) (\<lambda>cpc.
     ebind (s_div_const impression 1000) (\<lambda>per_mille.
     ebind (s_div spend per_mille) (\<lambda>cpm.
     ebind (getitem df ''attributed revenue'') (\<lambda>revenue.
     ebind (s_div revenue spend) (\<lambda>roas.
     Inr [(''ctr'', ctr), (''cpc'', cpc), (''cpm'', cpm), (''roas'', roas)]))))))))))"

definition calculate_platform_kpis :: "addr \<Rightarrow> state \<Rightarrow> (error + addr) \<times> state" where
  "calculate_platform_kpis df s =
     (let (df_clean, s1) = copy df s in
      case platform_kpis (heap s1 ! df_clean) of
        Inl e \<Rightarrow> (Inl e, s1)
      | Inr kpis \<Rightarrow>
          (Inr df_clean,
           fold (\<lambda>(kpi, values). setitem_at df_clean kpi (s_round2 (s_fillna0 values))) kpis s1))"

subsection \<open>KPIs of all platforms\<close>

text \<open>The loop of \<^verbatim>\<open>calculate_marketing_kpis\<close> over \<^verbatim>\<open>marketing_dfs.items()\<close>, collecting the
  addresses of the new dataframes.\<close>

fun kpis_loop :: "(string \<times> addr) list \<Rightarrow> addr list \<Rightarrow> state \<Rightarrow> (error + addr list) \<times> state" where
  "kpis_loop [] all_marketing_data s = (Inr all_marketing_data, s)"
| "kpis_loop ((platform, df) # items) all_marketing_data s =
     (case calculate_platform_kpis df s of
        (Inl e, s1) \<Rightarrow> (Inl e, s1)
      | (Inr df_with_kpis, s1) \<Rightarrow> kpis_loop items (all_marketing_data @ [df_with_kpis]) s1)"

text \<open>The first occurrences of a list, in order.\<close>

definition uniq :: "'a list \<Rightarrow> 'a list" where
  "uniq xs = rev (remdups (rev xs))"

text \<open>\<^verbatim>\<open>pd.concat(dfs, ignore_index=True)\<close>: no dataframe at all is a ValueError; otherwise the
  rows follow each other, under the union of the columns in order of first appearance, a
  column that a dataframe lacks being missing there.\<close>

definition concat_frames :: "frame list \<Rightarrow> error + frame" where
  "concat_frames dfs =
     (if dfs = [] then Inl ValueError
      else Inr (map (\<lambda>c. (c, concat (map (\<lambda>df. case map_of df c of
                                                    Some vs \<Rightarrow> vs
                                                  | None \<Rightarrow> replicate (nrows df) (F NaN)) dfs)))
                    (uniq (concat (map columns dfs)))))"

definition calculate_marketing_kpis :: "state \<Rightarrow> (error + addr) \<times> state" where
  "calculate_marketing_kpis s =
     (case kpis_loop (marketing_dfs s) [] s of
        (Inl e, s1) \<Rightarrow> (Inl e, s1)
      | (Inr all_marketing_data, s1) \<Rightarrow>
          (case concat_frames (map (\<lambda>a. heap s1 ! a) all_marketing_data) of
             Inl e \<Rightarrow> (Inl e, s1)
           | Inr df \<Rightarrow> (let (a, s2) = alloc df s1 in (Inr a, s2))))"

subsection \<open>Business KPIs\<close>

text \<open>The dictionary \<^verbatim>\<open>business_kpis\<close>: here each entry is rounded before \<^verbatim>\<open>fillna(0)\<close>.\<close>

definition business_kpis :: "frame \<Rightarrow> error + (string \<times> cell list) list" where
  "business_kpis df =
     ebind (getitem df ''total revenue'') (\<lambda>revenue.
     ebind (getitem df ''# of orders'') (\<lambda>orders.
     ebind (s_div revenue orders) (\<lambda>aov.
     ebind (getitem df ''gross profit'') (\<lambda>profit.
     ebind (s_div profit revenue) (\<lambda>q2.
     ebind (s_mul_const q2 100) (\<lambda>profit_margin.
     ebind (getitem df ''new customers'') (\<lambda>new_customers.
     ebind (s_div new_customers orders) (\<lambda>q3.
     ebind (s_mul_const q3 100) (\<lambda>new_customer_rate.
     Inr [(''aov'', s_round2 aov), (''profit_margin'', s_round2 profit_margin),
          (''new_customer_rate'', s_round2 new_customer_rate)])))))))))"

definition calculate_business_kpis :: "state \<Rightarrow> (error + addr option) \<times> state" where
  "calculate_business_kpis s =
     (case business_df s of
        None \<Rightarrow> (Inr None, s)
      | Some b \<Rightarrow>
          (let (df, s1) = copy b s in
           case business_kpis (heap s1 ! df) of
             Inl e \<Rightarrow> (Inl e, s1)
           | Inr kpis \<Rightarrow>
               (Inr (Some df),
                fold (\<lambda>(kpi, values). setitem_at df kpi (s_fillna0 values)) kpis s1)))"

subsection \<open>Aggregation by date and platform\<close>

datatype agg = Sum | Mean


definition is_na :: "cell \<Rightarrow> bool" where
  "is_na c = (c = F NaN)"

fun is_float :: "cell \<Rightarrow> bool" where
  "is_float (F x) = True"
| "is_float c = False"

fun is_date :: "cell \<Rightarrow> bool" where
  "is_date (Date d) = True"
| "is_date c = False"

text \<open>Both aggregations skip missing values: the sum of none is 0, the mean of none is
  missing. The values are added one after the other from the first; the order in which the
  library adds the values of a long column, and its integer arithmetic on a column of whole
  numbers, are not modelled (every order and both arithmetics give the same sum where the
  values are whole numbers whose magnitudes add up to less than \<open>2 ^ 53\<close>).\<close>

definition agg_sum :: "fl list \<Rightarrow> fl" where
  "agg_sum xs = foldl fl_add (Fin 0) (filter (\<lambda>x. x \<noteq> NaN) xs)"

definition agg_mean :: "fl list \<Rightarrow> fl" where
  "agg_mean xs =
     (let ys = filter (\<lambda>x. x \<noteq> NaN) xs in
      if ys = [] then NaN else fl_div (foldl fl_add (Fin 0) ys) (Fin (real (length ys))))"

fun apply_agg :: "agg \<Rightarrow> fl list \<Rightarrow> fl" where
  "apply_agg Sum xs = agg_sum xs"
| "apply_agg Mean xs = agg_mean xs"

text \<open>The order in which pandas sorts group keys and pivoted labels: numbers by value, dates
  by day, texts by code points; cells of different kinds do not occur together in a key
  column of this program and are ordered by kind here.\<close>

fun cell_key :: "cell \<Rightarrow> nat \<times> real \<times> nat list" where
  "cell_key (F NInf) = (0, 0, [])"
| "cell_key (F (Fin x)) = (1, x, [])"
| "cell_key (F PInf) = (2, 0, [])"
| "cell_key (F NaN) = (3, 0, [])"
| "cell_key (Date d) = (4, real d, [])"
| "cell_key (Str s) = (5, 0, map of_char s)"

definition sort_cells :: "cell list \<Rightarrow> cell list" where
  "sort_cells xs = sort_key cell_key xs"

definition sort_keys :: "(cell \<times> cell) list \<Rightarrow> (cell \<times> cell) list" where
  "sort_keys ks = sort_key (\<lambda>(d, p). (cell_key d, cell_key p)) ks"

text \<open>The groups of \<^verbatim>\<open>groupby(['date', 'platform'])\<close>: the distinct key pairs, sorted; a row
  with a missing key belongs to no group.\<close>

definition group_keys :: "cell list \<Rightarrow> cell list \<Rightarrow> (cell \<times> cell) list" where
  "group_keys dates platforms =
     sort_keys (uniq (filter (\<lambda>(d, p). \<not> is_na d \<and> \<not> is_na p) (zip dates platforms)))"

definition group_values :: "cell \<times> cell \<Rightarrow> cell list \<Rightarrow> cell list \<Rightarrow> 'a list \<Rightarrow> 'a list" where
  "group_values k dates platforms xs =
     map snd (filter (\<lambda>(k', x). k' = k) (zip (zip dates platforms) xs))"

fun emap :: "('a \<Rightarrow> error + 'b) \<Rightarrow> 'a list \<Rightarrow> error + 'b list" where
  "emap f [] = Inr []"
| "emap f (x # xs) = ebind (f x) (\<lambda>y. ebind (emap f xs) (\<lambda>ys. Inr (y # ys)))"


subsection \<open>Pivot and merge\<close>









subsection \<open>The combined table\<close>



subsection \<open>Summary statistics\<close>

text \<open>A value of the dictionary that \<^verbatim>\<open>get_summary_stats\<close> returns.\<close>

datatype pyval = Num fl | Text string

definition endswith :: "string \<Rightarrow> string \<Rightarrow> bool" where
  "endswith s suffix = (length suffix \<le> length s \<and> drop (length s - length suffix) s = suffix)"

text \<open>\<^verbatim>\<open>df[[col for col in df.columns if P(col)]].sum().sum()\<close>: the sum of the column sums.\<close>

definition sum_sum :: "frame \<Rightarrow> (string \<Rightarrow> bool) \<Rightarrow> error + fl" where
  "sum_sum df P =
     ebind (emap (\<lambda>(c, vs). ebind (floats vs) (\<lambda>xs. Inr (agg_sum xs)))
                 (filter (\<lambda>(c, vs). P c) df)) (\<lambda>column_sums.
     Inr (agg_sum column_sums))"

fun days :: "cell list \<Rightarrow> nat list" where
  "days [] = []"
| "days (Date d # cs) = d # days cs"
| "days (c # cs) = days cs"

definition list_min :: "nat list \<Rightarrow> nat" where
  "list_min xs = foldl min (hd xs) (tl xs)"

definition list_max :: "nat list \<Rightarrow> nat" where
  "list_max xs = foldl max (hd xs) (tl xs)"

text \<open>
  \<^verbatim>\<open>df['date'].min().strftime('%Y-%m-%d')\<close> (and \<open>max\<close>): the extreme of the dates that are
  there, printed by \<open>strftime\<close>. With no date at all the extreme is \<^verbatim>\<open>NaT\<close>, whose
  \<^verbatim>\<open>strftime\<close> raises ValueError; a text or a number has no \<^verbatim>\<open>strftime\<close>; dates do not
  compare with other values.
\<close>

definition extreme_text :: "(nat \<Rightarrow> string) \<Rightarrow> (nat list \<Rightarrow> nat) \<Rightarrow> cell list \<Rightarrow> error + string" where
  "extreme_text strftime extreme col =
     (let present = filter (\<lambda>c. \<not> is_na c) col in
      if present = [] then Inl ValueError
      else if list_all is_date present then Inr (strftime (extreme (days present)))
      else if list_all (\<lambda>c. \<not> is_date c) present then Inl AttributeError
      else Inl TypeError)"

definition get_summary_stats :: "(nat \<Rightarrow> string) \<Rightarrow> state \<Rightarrow> error + (string \<times> pyval) list" where
  "get_summary_stats strftime s =
     (case combined_df s of
        None \<Rightarrow> Inr []
      | Some a \<Rightarrow>
          (let df = heap s ! a in
           ebind (sum_sum df (\<lambda>col. endswith col ''_spend'')) (\<lambda>total_spend.
           ebind (sum_sum df (\<lambda>col. endswith col ''_attributed revenue''))
             (\<lambda>total_attributed_revenue.
           ebind (getitem df ''total revenue'') (\<lambda>revenue.
           ebind (floats revenue) (\<lambda>xs.
           let total_business_revenue = agg_sum xs;
               overall_roas =
                 (if fl_pos total_spend then fl_div total_attributed_revenue total_spend
                  else Fin 0);
               attribution_gap =
                 (if fl_pos total_business_revenue
                  then fl_mul (fl_div (fl_sub total_business_revenue total_attributed_revenue)
                                      total_business_revenue) (Fin 100)
                  else Fin 0)
           in
           ebind (getitem df ''date'') (\<lambda>dates.
           ebind (extreme_text strftime list_min dates) (\<lambda>lo.
           ebind (extreme_text strftime list_max dates) (\<lambda>hi.
           Inr [(''total_spend'', Num total_spend),
                (''total_attributed_revenue'', Num total_attributed_revenue),
                (''total_business_revenue'', Num total_business_revenue),
                (''overall_roas'', Num overall_roas),
                (''attribution_gap'', Num attribution_gap),
                (''date_range'', Text (lo @ '' to '' @ hi))])))))))))"

subsection \<open>Loading\<close>

text \<open>\<^verbatim>\<open>pd.read_csv\<close> is the file system \<open>fs\<close>: what reading a path gives, a new dataframe or
  the exception raised.\<close>

definition read_csv :: "(string \<Rightarrow> error + frame) \<Rightarrow> string \<Rightarrow> state \<Rightarrow> (error + addr) \<times> state" where
  "read_csv fs path s =
     (case fs path of
        Inl e \<Rightarrow> (Inl e, s)
      | Inr df \<Rightarrow> (let (a, s1) = alloc df s in (Inr a, s1)))"

fun load_platforms :: "(string \<Rightarrow> error + frame) \<Rightarrow> string list \<Rightarrow> state \<Rightarrow> (error + unit) \<times> state" where
  "load_platforms fs [] s = (Inr (), s)"
| "load_platforms fs (platform # platforms) s =
     (case read_csv fs (''dataset/'' @ platform @ ''.csv'') s of
        (Inl e, s1) \<Rightarrow> (Inl e, s1)
      | (Inr df, s1) \<Rightarrow>
          (let s2 = setitem_at df ''platform''
                      (replicate (nrows (heap s1 ! df)) (Str platform)) s1;
               s3 = s2\<lparr>marketing_dfs := dict_set (marketing_dfs s2) platform df\<rparr>
           in load_platforms fs platforms s3))"

text \<open>\<^verbatim>\<open>load_data\<close> returns the dictionary of the loaded dataframes, or the empty dictionary
  when anything was raised (what was stored before stays stored).\<close>

definition load_data :: "(string \<Rightarrow> error + frame) \<Rightarrow> state \<Rightarrow> (string \<times> addr) list \<times> state" where
  "load_data fs s =
     (case read_csv fs ''dataset/business.csv'' s of
        (Inl e, s1) \<Rightarrow> ([], s1)
      | (Inr b, s1) \<Rightarrow>
          (case load_platforms fs PLATFORMS (s1\<lparr>business_df := Some b\<rparr>) of
             (Inl e, s2) \<Rightarrow> ([], s2)
           | (Inr u, s2) \<Rightarrow>
               (fold (\<lambda>(k, v) d. dict_set d k v) (marketing_dfs s2) [(''business'', b)], s2)))"

subsection \<open>Cleaning\<close>

text \<open>\<^verbatim>\<open>pd.to_numeric(col, errors='coerce')\<close>, with the number parser \<open>parse\<close> of the library: a
  text that does not parse becomes the missing value.\<close>

fun to_numeric_coerce :: "(string \<Rightarrow> fl option) \<Rightarrow> cell \<Rightarrow> cell" where
  "to_numeric_coerce parse (F x) = F x"
| "to_numeric_coerce parse (Str t) = (case parse t of Some x \<Rightarrow> F x | None \<Rightarrow> F NaN)"
| "to_numeric_coerce parse (Date d) = F (Fin (real d))"

definition convert_numeric_columns :: "(string \<Rightarrow> fl option) \<Rightarrow> addr \<Rightarrow> state \<Rightarrow> state" where
  "convert_numeric_columns parse df s =
     fold (\<lambda>col s. case map_of (heap s ! df) col of
                     None \<Rightarrow> s
                   | Some vs \<Rightarrow> setitem_at df col (map (to_numeric_coerce parse) vs) s)
          MARKETING_COLUMNS s"

text \<open>\<^verbatim>\<open>df['date'] = pd.to_datetime(df['date'])\<close>, with the library's \<open>to_datetime\<close> on a
  column (it raises on a text that is no date).\<close>

definition parse_dates :: "(cell list \<Rightarrow> error + cell list) \<Rightarrow> addr \<Rightarrow> state \<Rightarrow> (error + unit) \<times> state" where
  "parse_dates to_datetime df s =
     (case ebind (getitem (heap s ! df) ''date'') to_datetime of
        Inl e \<Rightarrow> (Inl e, s)
      | Inr ds \<Rightarrow> (Inr (), setitem_at df ''date'' ds s))"

definition clean_business_data :: "(cell list \<Rightarrow> error + cell list) \<Rightarrow> state \<Rightarrow> (error + unit) \<times> state" where
  "clean_business_data to_datetime s =
     (case business_df s of
        None \<Rightarrow> (Inr (), s)
      | Some b \<Rightarrow> parse_dates to_datetime b s)"

fun clean_loop :: "(cell list \<Rightarrow> error + cell list) \<Rightarrow> (string \<Rightarrow> fl option) \<Rightarrow>
    (string \<times> addr) list \<Rightarrow> state \<Rightarrow> (error + unit) \<times> state" where
  "clean_loop to_datetime parse [] s = (Inr (), s)"
| "clean_loop to_datetime parse ((platform, df) # items) s =
     (case parse_dates to_datetime df s of
        (Inl e, s1) \<Rightarrow> (Inl e, s1)
      | (Inr u, s1) \<Rightarrow> clean_loop to_datetime parse items (convert_numeric_columns parse df s1))"

definition clean_marketing_data :: "(cell list \<Rightarrow> error + cell list) \<Rightarrow> (string \<Rightarrow> fl option) \<Rightarrow>
    state \<Rightarrow> (error + unit) \<times> state" where
  "clean_marketing_data to_datetime parse s = clean_loop to_datetime parse (marketing_dfs s) s"

definition clean_data :: "(cell list \<Rightarrow> error + cell list) \<Rightarrow> (string \<Rightarrow> fl option) \<Rightarrow>
    state \<Rightarrow> (error + unit) \<times> state" where
  "clean_data to_datetime parse s =
     (case clean_business_data to_datetime s of
        (Inl e, s1) \<Rightarrow> (Inl e, s1)
      | (Inr u, s1) \<Rightarrow> clean_marketing_data to_datetime parse s1)"

section \<open>The chat service\<close>

text \<open>
  \<^verbatim>\<open>src/ai/llm.py\<close>. The surroundings of the service are a record: whether the client library
  was imported, the environment variable, whether setting up the client succeeds, and what
  the remote model answers to a prompt (\<open>Inl\<close> the text of the exception it raises). Every
  function returns the list of calls it made to the client library.
\<close>

record world =
  GEMINI_AVAILABLE :: bool
  GOOGLE_API_KEY :: "string option"
  client_ok :: bool
  generate_content :: "string \<Rightarrow> string + string"

datatype call = Configure string | GenerativeModel string | GenerateContent string

text \<open>The two classes; each object holds its \<^verbatim>\<open>gemini_model\<close> (the model's name, or None).\<close>

datatype service = LLMService "string option" | MockLLMService "string option"

text \<open>The truth value of \<^verbatim>\<open>os.getenv('GOOGLE_API_KEY')\<close>: unset and empty are both false.\<close>

definition key_set :: "world \<Rightarrow> bool" where
  "key_set w = (case GOOGLE_API_KEY w of None \<Rightarrow> False | Some k \<Rightarrow> k \<noteq> [])"

text \<open>\<^verbatim>\<open>LLMService.__init__\<close>, which both classes run.\<close>

definition llm_init :: "world \<Rightarrow> string option \<times> call list" where
  "llm_init w =
     (if GEMINI_AVAILABLE w \<and> key_set w then
        (if client_ok w
         then (Some ''gemini-2.5-flash'',
               [Configure (the (GOOGLE_API_KEY w)), GenerativeModel ''gemini-2.5-flash''])
         else (None, [Configure (the (GOOGLE_API_KEY w))]))
      else (None, []))"

definition get_llm_service :: "world \<Rightarrow> service \<times> call list" where
  "get_llm_service w =
     (if GEMINI_AVAILABLE w \<and> key_set w
      then (let (m, calls) = llm_init w in (LLMService m, calls))
      else (let (m, calls) = llm_init w in (MockLLMService m, calls)))"

definition newline :: string where
  "newline = [CHR 0x0A]"

definition prompt_text :: "string \<Rightarrow> string \<Rightarrow> string \<Rightarrow> string" where
  "prompt_text query summary_json performance_json =
     newline @
     ''        You are a marketing analyst AI. A user has asked a question about their marketing data.'' @ newline @
     ''        Answer the user's query based on the data provided below.'' @ newline @ newline @
     ''        User Query: '' @ [CHR 0x22] @ query @ [CHR 0x22] @ newline @ newline @
     ''        High-Level Marketing Data Summary:'' @ newline @
     ''        '' @ summary_json @ newline @ newline @
     ''        Platform Performance Breakdown:'' @ newline @
     ''        '' @ performance_json @ newline @ newline @
     ''        Provide a concise and helpful answer to the user's query based on the provided data.'' @ newline @
     ''        ''"

text \<open>\<^verbatim>\<open>get_chat_response\<close>, by the class of the object. \<open>dumps\<close> is \<^verbatim>\<open>json.dumps(_, indent=2)\<close>,
  which raises on a value that JSON cannot hold; that exception is not caught.\<close>

fun get_chat_response :: "world \<Rightarrow> ('d \<Rightarrow> error + string) \<Rightarrow> service \<Rightarrow> string \<Rightarrow> 'd \<Rightarrow> 'd \<Rightarrow>
    (error + string) \<times> call list" where
  "get_chat_response w dumps (MockLLMService m) query data_summary platform_performance =
     (Inr ''This is a mock chat response. Please set your `GOOGLE_API_KEY` to use the real AI chat.'', [])"
| "get_chat_response w dumps (LLMService None) query data_summary platform_performance =
     (Inr ''AI chat is not configured. Please ensure your `GOOGLE_API_KEY` is set correctly.'', [])"
| "get_chat_response w dumps (LLMService (Some m)) query data_summary platform_performance =
     (case dumps data_summary of
        Inl e \<Rightarrow> (Inl e, [])
      | Inr summary_json \<Rightarrow>
          (case dumps platform_performance of
             Inl e \<Rightarrow> (Inl e, [])
           | Inr performance_json \<Rightarrow>
               (let prompt = prompt_text query summary_json performance_json in
                case generate_content w prompt of
                  Inr response \<Rightarrow> (Inr response, [GenerateContent prompt])
                | Inl e \<Rightarrow>
                    (Inr (''An error occurred while communicating with the AI: '' @ e),
                     [GenerateContent prompt]))))"

section \<open>Notions for stating the properties\<close>

text \<open>The cell of a column in a row, when both are there (\<^verbatim>\<open>df[col].iloc[i]\<close>).\<close>

definition cell_at :: "frame \<Rightarrow> string \<Rightarrow> nat \<Rightarrow> cell option" where
  "cell_at df col i =
     (case map_of df col of
        None \<Rightarrow> None
      | Some vs \<Rightarrow> if i < length vs then Some (vs ! i) else None)"

text \<open>A column that is there and holds floats only, as the marketing columns do after
  cleaning.\<close>

definition numeric :: "frame \<Rightarrow> string \<Rightarrow> bool" where
  "numeric df col = (case map_of df col of None \<Rightarrow> False | Some vs \<Rightarrow> list_all is_float vs)"

text \<open>What the loop \<^verbatim>\<open>for kpi, values in kpis.items(): df[kpi] = g(values)\<close> does to the
  dataframe it writes to.\<close>

definition add_kpis :: "(cell list \<Rightarrow> cell list) \<Rightarrow> (string \<times> cell list) list \<Rightarrow> frame \<Rightarrow> frame" where
  "add_kpis g kpis df = fold (\<lambda>(kpi, values) df. setitem df kpi (g values)) kpis df"

subsection \<open>Example data\<close>

definition example_marketing :: frame where
  "example_marketing =
     [(''date'', [Date 19723]), (''impression'', [F (Fin 3)]), (''clicks'', [F (Fin 1)]),
      (''spend'', [F (Fin 10)]), (''attributed revenue'', [F (Fin 20)])]"

text \<open>A row on which rounding to two decimals changes the click-through rate, all of its
  quotients being float64 numbers.\<close>

definition example_clicks :: frame where
  "example_clicks =
     [(''date'', [Date 19723]), (''impression'', [F (Fin 1024)]), (''clicks'', [F (Fin 23)]),
      (''spend'', [F (Fin 46)]), (''attributed revenue'', [F (Fin 92)])]"

text \<open>A row whose quotients \<open>23 / 160 * 100\<close> and \<open>23 / 40\<close> are ties of the rounding to two
  decimals in real arithmetic, and lie just below the tie in float arithmetic.\<close>

definition example_ties :: frame where
  "example_ties =
     [(''date'', [Date 19723]), (''impression'', [F (Fin 160)]), (''clicks'', [F (Fin 23)]),
      (''spend'', [F (Fin 40)]), (''attributed revenue'', [F (Fin 23)])]"

definition example_state :: state where
  "example_state = init\<lparr>heap := [example_marketing], marketing_dfs := [(''Facebook'', 0)]\<rparr>"

text \<open>From \<open>s\<close> to \<open>s'\<close> new dataframes were made at most: every dataframe of \<open>s\<close> and the
  three fields are as before.\<close>

definition only_allocates :: "state \<Rightarrow> state \<Rightarrow> bool" where
  "only_allocates s s' =
     (length (heap s) \<le> length (heap s') \<and> take (length (heap s)) (heap s') = heap s \<and>
      business_df s' = business_df s \<and> marketing_dfs s' = marketing_dfs s \<and>
      combined_df s' = combined_df s)"



text \<open>Every row of the dataframe has this platform in its column \<open>platform\<close>.\<close>

definition tagged :: "string \<Rightarrow> frame \<Rightarrow> bool" where
  "tagged platform df =
     (case map_of df ''platform'' of
        None \<Rightarrow> False
      | Some col \<Rightarrow> length col = nrows df \<and> list_all (\<lambda>c. c = Str platform) col)"

text \<open>A file system with the four files, one row each.\<close>

definition example_fs :: "string \<Rightarrow> error + frame" where
  "example_fs path =
     (if path = ''dataset/business.csv''
      then Inr [(''date'', [Str ''2024-01-01'']), (''# of orders'', [F (Fin 4)]),
                (''# of new orders'', [F (Fin 2)]), (''new customers'', [F (Fin 2)]),
                (''total revenue'', [F (Fin 100)]), (''gross profit'', [F (Fin 40)])]
      else if path = ''dataset/Facebook.csv'' \<or> path = ''dataset/Google.csv''
        \<or> path = ''dataset/TikTok.csv''
      then Inr [(''date'', [Str ''2024-01-01'']), (''impression'', [F (Fin 3)]),
                (''clicks'', [F (Fin 1)]), (''spend'', [F (Fin 10)]),
                (''attributed revenue'', [F (Fin 20)])]
      else Inl FileNotFoundError)"








text \<open>The cell of a combined table for a metric, a business date and a platform: the
  aggregate of the marketing rows with this date and platform, and 0 when there is none (or
  when the aggregate is missing).\<close>

definition combined_cell :: "agg \<Rightarrow> cell list \<Rightarrow> cell list \<Rightarrow> fl list \<Rightarrow> cell \<Rightarrow> cell \<Rightarrow> cell" where
  "combined_cell how dates platforms xs d p =
     fillna0_cell (if (d, p) \<in> set (group_keys dates platforms)
                   then F (apply_agg how (group_values (d, p) dates platforms xs))
                   else F NaN)"












section \<open>Properties\<close>

lemma ebind_simps [simp]:
  "ebind (Inl e) f = Inl e"
  "ebind (Inr x) f = f x"
  by (simp_all add: ebind_def)

subsection \<open>Float64 values\<close>

lemma rint_of_int [simp]: "rint (of_int n) = n"
  by (simp add: rint_def)

lemma rint_numeral [simp]: "rint (numeral w) = numeral w"
  using rint_of_int [of "numeral w"] by simp

lemma rint_0 [simp]: "rint 0 = 0"
  by (simp add: rint_def)

lemma b64_not_NaN [simp]: "b64 x \<noteq> NaN"
  by (simp add: b64_def Let_def)

lemma b64_0 [simp]: "b64 0 = Fin 0"
  by (simp add: b64_def)

lemma powi_powr: "(2::real) powi k = 2 powr (of_int k)"
  by (simp add: powr_real_of_int')

lemma binade_eq:
  assumes "x \<noteq> 0" "2 powi e \<le> \<bar>x\<bar>" "\<bar>x\<bar> < 2 powi (e + 1)" "- 1022 \<le> e"
  shows "binade x = e"
proof -
  have "\<lfloor>log 2 \<bar>x\<bar>\<rfloor> = e"
    using assms by (subst floor_log_eq_powr_iff) (simp_all add: powi_powr)
  with assms(4) show ?thesis by (simp add: binade_def)
qed

lemma binade_le:
  assumes "x \<noteq> 0" "\<bar>x\<bar> < 2 powi (k + 1)" "- 1022 \<le> k"
  shows "binade x \<le> k"
proof -
  have lt: "\<bar>x\<bar> < 2 powr (of_int (k + 1))"
    using assms(2) unfolding powi_powr .
  have "log 2 \<bar>x\<bar> < log 2 (2 powr (of_int (k + 1)))"
    using assms(1) lt by (subst log_less_cancel_iff) simp_all
  then have "log 2 \<bar>x\<bar> < of_int (k + 1)"
    by simp
  then have "\<lfloor>log 2 \<bar>x\<bar>\<rfloor> < k + 1"
    by (simp only: floor_less_iff)
  with assms(3) show ?thesis by (simp add: binade_def)
qed

lemma b64_binade:
  assumes "x \<noteq> 0" "binade x = e"
  shows "b64 x = (let u = 2 powi (e - 52); y = of_int (rint (x / u)) * u
           in if 2 ^ 1024 \<le> \<bar>y\<bar> then (if 0 < x then PInf else NInf) else Fin y)"
  using assms by (simp add: b64_def)

text \<open>A number with a significand of at most 53 bits and an exponent in range is a float64
  value: rounding leaves it as it is.\<close>

lemma b64_exact:
  assumes x: "x = of_int m * 2 powi k" and m: "\<bar>m\<bar> < 2 ^ 53" and k: "- 1074 \<le> k"
    and r: "\<bar>x\<bar> < 2 ^ 1024"
  shows "b64 x = Fin x"
proof (cases "x = 0")
  case True
  then show ?thesis by simp
next
  case False
  define e where "e = binade x"
  have "\<bar>x\<bar> = of_int \<bar>m\<bar> * 2 powi k" by (simp add: x abs_mult)
  also have "\<dots> < 2 ^ 53 * 2 powi k"
    using m by (intro mult_strict_right_mono) simp_all
  also have "\<dots> = 2 powi (k + 52 + 1)"
    by (simp add: power_int_add)
  finally have "binade x \<le> k + 52" using False k by (intro binade_le) simp_all
  then have le: "0 \<le> k - (e - 52)" by (simp add: e_def)
  have "x / 2 powi (e - 52) = of_int m * 2 powi (k - (e - 52))"
    by (simp add: x power_int_diff)
  also have "\<dots> = of_int (m * 2 ^ nat (k - (e - 52)))"
    using le by (simp add: power_int_def)
  finally have "rint (x / 2 powi (e - 52)) = m * 2 ^ nat (k - (e - 52))"
    by (simp only: rint_of_int)
  then have "of_int (rint (x / 2 powi (e - 52))) * 2 powi (e - 52) =
      of_int m * 2 powi (k - (e - 52)) * 2 powi (e - 52)"
    using le by (simp add: power_int_def)
  also have "\<dots> = x"
    by (simp add: x power_int_diff)
  finally have y: "of_int (rint (x / 2 powi (e - 52))) * 2 powi (e - 52) = x" .
  show ?thesis
    using False r by (simp add: b64_binade [OF False e_def [symmetric]] y Let_def)
qed

text \<open>The value of \<open>b64\<close> at a number whose exponent is known.\<close>

lemma b64_eq:
  assumes "x \<noteq> 0" "2 powi e \<le> \<bar>x\<bar>" "\<bar>x\<bar> < 2 powi (e + 1)" "- 1022 \<le> e"
    and "of_int (rint (x / 2 powi (e - 52))) * 2 powi (e - 52) = y" "\<bar>y\<bar> < 2 ^ 1024"
  shows "b64 x = Fin y"
  using assms(1,6) by (simp add: b64_binade [OF assms(1) binade_eq [OF assms(1-4)]] assms(5))

lemma b64_int: "\<bar>n\<bar> < 2 ^ 53 \<Longrightarrow> b64 (of_int n) = Fin (of_int n)"
proof -
  assume a: "\<bar>n\<bar> < 2 ^ 53"
  then have "\<bar>real_of_int n\<bar> < 2 ^ 53"
    by (metis of_int_abs of_int_less_numeral_power_cancel_iff)
  also have "\<dots> < (2::real) ^ 1024" by simp
  finally show ?thesis using a by (intro b64_exact [where m = n and k = 0]) simp_all
qed

lemma b64_numeral [simp]: "(numeral w :: int) < 2 ^ 53 \<Longrightarrow> b64 (numeral w) = Fin (numeral w)"
  using b64_int [of "numeral w"] by simp

lemma b64_1 [simp]: "b64 1 = Fin 1"
  using b64_int [of 1] by simp

lemma b64_half [simp]: "b64 (1 / 2) = Fin (1 / 2)"
  by (rule b64_exact [where m = 1 and k = "-1"]) simp_all

lemma b64_quarter [simp]: "b64 (1 / 4) = Fin (1 / 4)"
  by (rule b64_exact [where m = 1 and k = "-2"]) simp_all

lemma b64_three_quarters [simp]: "b64 (3 / 4) = Fin (3 / 4)"
  by (rule b64_exact [where m = 3 and k = "-2"]) simp_all

lemma is_b64_numeral [simp]: "(numeral w :: int) < 2 ^ 53 \<Longrightarrow> is_b64 (numeral w)"
  by (simp add: is_b64_def)

lemma is_b64_0 [simp]: "is_b64 0"
  by (simp add: is_b64_def)

lemma is_b64_1 [simp]: "is_b64 1"
  by (simp add: is_b64_def)

text \<open>Rounding to two decimals keeps the special values, and no operation on a finite value
  and a non-zero constant gives NaN.\<close>

lemma fl_round2_special [simp]:
  "fl_round2 PInf = PInf" "fl_round2 NInf = NInf" "fl_round2 NaN = NaN" "fl_round2 (Fin 0) = Fin 0"
  by (simp_all add: fl_round2_def)

lemma fl_mul_const_NaN [simp]: "k \<noteq> 0 \<Longrightarrow> fl_mul x (Fin k) = NaN \<longleftrightarrow> x = NaN"
  by (cases x) simp_all

lemma fl_div_b64_NaN [simp]: "y \<noteq> 0 \<Longrightarrow> fl_div (Fin x) (Fin y) \<noteq> NaN"
  by simp

subsection \<open>Division by zero in the KPI columns\<close>

text \<open>
  Claim C1 says that every derived KPI is 0 when its denominator is 0 and is never NaN or
  infinite. The code replaces only missing values (\<open>0/0\<close>) by 0: on a marketing row with 0
  impressions and 5 clicks the columns \<open>ctr\<close> and \<open>cpm\<close> hold \<open>+inf\<close>, and on a business row
  with 0 orders and a revenue of 100 the column \<open>aov\<close> holds \<open>+inf\<close>.
\<close>

theorem kpis_infinite_on_zero_denominator:
  "(let s = init\<lparr>heap := [[(''date'', [Date 0]), (''impression'', [F (Fin 0)]),
                               (''clicks'', [F (Fin 5)]), (''spend'', [F (Fin 10)]),
                               (''attributed revenue'', [F (Fin 20)])]]\<rparr>;
        (r, s') = calculate_platform_kpis 0 s
    in r = Inr 1 \<and> getitem (heap s' ! 1) ''impression'' = Inr [F (Fin 0)]
       \<and> getitem (heap s' ! 1) ''ctr'' = Inr [F PInf]
       \<and> getitem (heap s' ! 1) ''cpm'' = Inr [F PInf])
   \<and> (let s = init\<lparr>heap := [[(''date'', [Date 0]), (''# of orders'', [F (Fin 0)]),
                               (''# of new orders'', [F (Fin 0)]), (''new customers'', [F (Fin 0)]),
                               (''total revenue'', [F (Fin 100)]), (''gross profit'', [F (Fin 40)])]],
                     business_df := Some 0\<rparr>;
        (r, s') = calculate_business_kpis s
    in r = Inr (Some 1) \<and> getitem (heap s' ! 1) ''# of orders'' = Inr [F (Fin 0)]
       \<and> getitem (heap s' ! 1) ''aov'' = Inr [F PInf])"
  by (simp add: calculate_platform_kpis_def calculate_business_kpis_def copy_def alloc_def
      init_def platform_kpis_def business_kpis_def getitem_def s_div_def s_mul_const_def
      s_div_const_def setitem_at_def setitem_def s_round2_def s_fillna0_def)

subsection \<open>The summary of a processor without a combined table\<close>

text \<open>
  Claim C8: while \<open>combined_df\<close> is None, \<open>get_summary_stats\<close> returns the empty dictionary
  and raises nothing.
\<close>

theorem summary_without_combined:
  "combined_df s = None \<Longrightarrow> get_summary_stats strftime s = Inr []"
  by (simp add: get_summary_stats_def)

theorem summary_without_combined_witness:
  "combined_df init = None \<and> get_summary_stats (\<lambda>d. ''2024-01-01'') init = Inr []"
proof -
  have h: "combined_df init = None" by (simp add: init_def)
  from summary_without_combined [OF h] h show ?thesis by simp
qed

subsection \<open>The chat service without an API key\<close>

text \<open>
  Claim C10: when the environment variable \<open>GOOGLE_API_KEY\<close> is unset or empty, building the
  service by \<open>get_llm_service\<close> calls nothing of the client library, and the service answers
  every query, summary and platform performance with one fixed message, again without a
  call.
\<close>

theorem mock_chat_without_key:
  "\<not> key_set w \<Longrightarrow>
   snd (get_llm_service w) = [] \<and>
   get_chat_response w dumps (fst (get_llm_service w)) query data_summary platform_performance =
     (Inr ''This is a mock chat response. Please set your `GOOGLE_API_KEY` to use the real AI chat.'', [])"
  by (simp add: get_llm_service_def llm_init_def)

theorem mock_chat_without_key_witness:
  "(let w = \<lparr>GEMINI_AVAILABLE = True, GOOGLE_API_KEY = None, client_ok = True,
             generate_content = (\<lambda>p. Inr ''hello'')\<rparr>
    in \<not> key_set w \<and> snd (get_llm_service w) = [] \<and>
       get_chat_response w (\<lambda>d. Inr d) (fst (get_llm_service w)) ''What is my ROAS?'' ''{}'' ''{}'' =
         (Inr ''This is a mock chat response. Please set your `GOOGLE_API_KEY` to use the real AI chat.'', []))"
proof -
  let ?w = "\<lparr>GEMINI_AVAILABLE = True, GOOGLE_API_KEY = None, client_ok = True,
             generate_content = (\<lambda>p. Inr ''hello'' :: string + string)\<rparr>"
  have h: "\<not> key_set ?w" by (simp add: key_set_def)
  from mock_chat_without_key [OF h, of "\<lambda>d. Inr d" "''What is my ROAS?''" "''{}''" "''{}''"] h
  show ?thesis by (simp add: Let_def)
qed

subsection \<open>Columns of floats and the KPI loop\<close>


lemma floats_map_F [simp]: "floats (map F fs) = Inr fs"
  by (induction fs) auto

lemma floats_map_F_fun [simp]: "floats (map (\<lambda>x. F (g x)) fs) = Inr (map g fs)"
  by (induction fs) auto

lemma floats_map_F_comp [simp]: "floats (map (F \<circ> g) fs) = Inr (map g fs)"
  by (induction fs) auto

lemma platform_kpis_numeric:
  assumes "getitem df ''clicks'' = Inr (map F fc)"
    and "getitem df ''impression'' = Inr (map F fi)"
    and "getitem df ''spend'' = Inr (map F fs)"
    and "getitem df ''attributed revenue'' = Inr (map F fr)"
  shows "platform_kpis df =
    Inr [(''ctr'', map (\<lambda>x. F (fl_mul x (Fin 100))) (map2 fl_div fc fi)),
         (''cpc'', map F (map2 fl_div fs fc)),
         (''cpm'', map F (map2 fl_div fs (map (\<lambda>x. fl_div x (Fin 1000)) fi))),
         (''roas'', map F (map2 fl_div fr fs))]"
  unfolding platform_kpis_def using assms
  by (simp add: s_div_def s_mul_const_def s_div_const_def)

lemma fold_setitem_at:
  "a < length (heap s) \<Longrightarrow>
   fold (\<lambda>(kpi, values). setitem_at a kpi (g values)) kpis s =
   s\<lparr>heap := (heap s)[a := add_kpis g kpis (heap s ! a)]\<rparr>"
proof (induction kpis arbitrary: s)
  case Nil
  then show ?case by (simp add: add_kpis_def)
next
  case (Cons k kpis)
  obtain c vs where k: "k = (c, vs)" by (cases k)
  have len: "a < length (heap (setitem_at a c (g vs) s))"
    using Cons.prems by (simp add: setitem_at_def)
  show ?case
    using Cons.prems by (simp add: k Cons.IH [OF len]) (simp add: setitem_at_def add_kpis_def)
qed

lemma calculate_platform_kpis_eq:
  assumes "a < length (heap s)"
  shows "calculate_platform_kpis a s =
    (case platform_kpis (heap s ! a) of
       Inl e \<Rightarrow> (Inl e, s\<lparr>heap := heap s @ [heap s ! a]\<rparr>)
     | Inr kpis \<Rightarrow> (Inr (length (heap s)),
         s\<lparr>heap := heap s @ [add_kpis (\<lambda>vs. s_round2 (s_fillna0 vs)) kpis (heap s ! a)]\<rparr>))"
  using assms
  by (simp add: calculate_platform_kpis_def copy_def alloc_def fold_setitem_at nth_append
      split: sum.splits)

lemma list_all_is_float: "list_all is_float vs \<Longrightarrow> \<exists>fs. vs = map F fs"
proof -
  assume "list_all is_float vs"
  then have "vs = map F (map (\<lambda>v. case v of F x \<Rightarrow> x | _ \<Rightarrow> NaN) vs)"
    by (induction vs) (auto elim: is_float.elims)
  then show ?thesis ..
qed

lemma numeric_getitem: "numeric df col \<Longrightarrow> \<exists>fs. getitem df col = Inr (map F fs)"
  by (auto simp: numeric_def getitem_def split: option.splits dest: list_all_is_float)

lemma map_of_dict_set [simp]:
  "map_of (dict_set d k v) k' = (if k' = k then Some v else map_of d k')"
  by (induction d k v rule: dict_set.induct) auto

lemma getitem_setitem [simp]:
  "getitem (setitem df c vs) c' = (if c' = c then Inr vs else getitem df c')"
  by (simp add: getitem_def setitem_def)

lemma cell_at_setitem [simp]:
  "cell_at (setitem df c vs) c' i =
     (if c' = c then (if i < length vs then Some (vs ! i) else None) else cell_at df c' i)"
  by (simp add: cell_at_def setitem_def)

lemma cell_at_getitem:
  "getitem df col = Inr vs \<Longrightarrow> cell_at df col i = Some v \<Longrightarrow> i < length vs \<and> vs ! i = v"
  by (auto simp: getitem_def cell_at_def split: option.splits if_splits)

subsection \<open>The KPI formulas of a marketing row\<close>

lemma fillna0_cell_F: "x \<noteq> NaN \<Longrightarrow> fillna0_cell (F x) = F x"
  by (cases x) simp_all

lemma fl_div_Fin_NaN: "fl_div (Fin x) d = NaN \<longleftrightarrow> d = NaN \<or> (d = Fin 0 \<and> x = 0)"
  by (cases d) auto

text \<open>The roundings that the two example rows go through.\<close>

lemma kpi_value_1: "b64 (23 / 1024) = Fin (23 / 1024)"
  by (rule b64_exact [where m = "23" and k = "-10"]) simp_all

lemma kpi_value_2: "b64 (575 / 256) = Fin (575 / 256)"
  by (rule b64_exact [where m = "575" and k = "-8"]) simp_all

lemma kpi_value_3: "b64 (14375 / 64) = Fin (14375 / 64)"
  by (rule b64_exact [where m = "14375" and k = "-6"]) simp_all

lemma kpi_value_4: "b64 (9 / 4) = Fin (9 / 4)"
  by (rule b64_exact [where m = "9" and k = "-2"]) simp_all

lemma kpi_value_5: "b64 (128 / 125) = Fin (1152921504606847 / 1125899906842624)"
  by (rule b64_eq [where e = "0"]) (simp_all add: rint_def)

lemma kpi_value_6: "b64 (51791395714760704 / 1152921504606847) = Fin (2875 / 64)"
  by (rule b64_eq [where e = "5"]) (simp_all add: rint_def)

lemma kpi_value_7: "b64 (71875 / 16) = Fin (71875 / 16)"
  by (rule b64_exact [where m = "71875" and k = "-4"]) simp_all

lemma kpi_value_8: "b64 (1123 / 25) = Fin (3160963988460667 / 70368744177664)"
  by (rule b64_eq [where e = "5"]) (simp_all add: rint_def)

lemma kpi_value_9: "b64 (23 / 160) = Fin (2589569785738035 / 18014398509481984)"
  by (rule b64_eq [where e = "-3"]) (simp_all add: rint_def)

lemma kpi_value_10: "b64 (64739244643450875 / 4503599627370496) = Fin (8092405580431359 / 562949953421312)"
  by (rule b64_eq [where e = "3"]) (simp_all add: rint_def)

lemma kpi_value_11: "b64 (202310139510783975 / 140737488355328) = Fin (6322191859711999 / 4398046511104)"
  by (rule b64_eq [where e = "10"]) (simp_all add: rint_def)

lemma kpi_value_12: "b64 (1437 / 100) = Fin (8089590830664253 / 562949953421312)"
  by (rule b64_eq [where e = "3"]) (simp_all add: rint_def)

lemma kpi_value_13: "b64 (40 / 23) = Fin (7832347178035645 / 4503599627370496)"
  by (rule b64_eq [where e = "0"]) (simp_all add: rint_def)

lemma kpi_value_14: "b64 (195808679450891125 / 1125899906842624) = Fin (1529755308210087 / 8796093022208)"
  by (rule b64_eq [where e = "7"]) (simp_all add: rint_def)

lemma kpi_value_15: "b64 (87 / 50) = Fin (7836263351624663 / 4503599627370496)"
  by (rule b64_eq [where e = "0"]) (simp_all add: rint_def)

lemma kpi_value_16: "b64 (4 / 25) = Fin (5764607523034235 / 36028797018963968)"
  by (rule b64_eq [where e = "-3"]) (simp_all add: rint_def)

lemma kpi_value_17: "b64 (288230376151711744 / 1152921504606847) = Fin (250)"
  by (rule b64_eq [where e = "7"]) (simp_all add: rint_def)

lemma kpi_value_18: "b64 (23 / 40) = Fin (2589569785738035 / 4503599627370496)"
  by (rule b64_eq [where e = "-1"]) (simp_all add: rint_def)

lemma kpi_value_19: "b64 (64739244643450875 / 1125899906842624) = Fin (8092405580431359 / 140737488355328)"
  by (rule b64_eq [where e = "5"]) (simp_all add: rint_def)

lemma kpi_value_20: "b64 (57 / 100) = Fin (5134103575202365 / 9007199254740992)"
  by (rule b64_eq [where e = "-1"]) (simp_all add: rint_def)

lemmas kpi_values = kpi_value_1 kpi_value_2 kpi_value_3 kpi_value_4 kpi_value_5 kpi_value_6 kpi_value_7 kpi_value_8 kpi_value_9 kpi_value_10 kpi_value_11 kpi_value_12 kpi_value_13 kpi_value_14 kpi_value_15 kpi_value_16 kpi_value_17 kpi_value_18 kpi_value_19 kpi_value_20

text \<open>
  Claim C3 gives the KPI columns as the plain quotients. The code rounds every KPI to two
  decimals: with 23 clicks on 1024 impressions the column \<open>ctr\<close> holds 2.25, whereas
  \<open>23 / 1024 * 100\<close> is 2.24609375, in float arithmetic (which is exact here) as in real
  arithmetic.
\<close>

theorem ctr_is_rounded_counterexample:
  "cell_at example_clicks ''clicks'' 0 = Some (F (Fin 23)) \<and>
   cell_at example_clicks ''impression'' 0 = Some (F (Fin 1024)) \<and>
   cell_at (heap (snd (calculate_platform_kpis 0 (init\<lparr>heap := [example_clicks]\<rparr>))) ! 1)
     ''ctr'' 0 = Some (F (Fin (9 / 4))) \<and>
   fl_mul (fl_div (Fin 23) (Fin 1024)) (Fin 100) = Fin (23 / 1024 * 100) \<and>
   (9 / 4 :: real) \<noteq> 23 / 1024 * 100"
  by (simp add: calculate_platform_kpis_eq init_def example_clicks_def platform_kpis_def
      getitem_def s_div_def s_mul_const_def s_div_const_def add_kpis_def cell_at_def
      setitem_def s_round2_def s_fillna0_def fl_round2_def kpi_values rint_def)

text \<open>
  Claim C3 as amended: in a marketing table whose four attribute columns hold floats, on
  every row whose attributes are float64 numbers, each KPI is its quotient, computed in
  float64 arithmetic and then rounded to two decimals by \<^verbatim>\<open>round(2)\<close>: \<open>ctr\<close> is
  \<open>clicks / impressions * 100\<close> when impressions are positive, \<open>cpc\<close> is \<open>spend / clicks\<close> when
  clicks are positive, \<open>cpm\<close> is \<open>spend / (impressions / 1000)\<close> when impressions are positive
  (and so many that \<open>impressions / 1000\<close> is not rounded to zero), \<open>roas\<close> is
  \<open>attributed revenue / spend\<close> when spend is positive, and \<open>roas\<close> is 0 when spend and
  attributed revenue are both 0. (The computation raises nothing on such a table.)
\<close>

theorem platform_kpis_rounded:
  assumes a: "df < length (heap s)"
    and num: "numeric (heap s ! df) ''clicks''" "numeric (heap s ! df) ''impression''"
      "numeric (heap s ! df) ''spend''" "numeric (heap s ! df) ''attributed revenue''"
    and row: "cell_at (heap s ! df) ''clicks'' i = Some (F (Fin c))"
      "cell_at (heap s ! df) ''impression'' i = Some (F (Fin m))"
      "cell_at (heap s ! df) ''spend'' i = Some (F (Fin sp))"
      "cell_at (heap s ! df) ''attributed revenue'' i = Some (F (Fin rv))"
    and rep: "is_b64 c" "is_b64 m" "is_b64 sp" "is_b64 rv"
  shows "\<exists>df' s'. calculate_platform_kpis df s = (Inr df', s') \<and>
     (0 < m \<longrightarrow> cell_at (heap s' ! df') ''ctr'' i =
        Some (F (fl_round2 (fl_mul (b64 (c / m)) (Fin 100))))) \<and>
     (0 < c \<longrightarrow> cell_at (heap s' ! df') ''cpc'' i = Some (F (fl_round2 (b64 (sp / c))))) \<and>
     (0 < m \<and> b64 (m / 1000) \<noteq> Fin 0 \<longrightarrow> cell_at (heap s' ! df') ''cpm'' i =
        Some (F (fl_round2 (fl_div (Fin sp) (b64 (m / 1000)))))) \<and>
     (0 < sp \<longrightarrow> cell_at (heap s' ! df') ''roas'' i = Some (F (fl_round2 (b64 (rv / sp))))) \<and>
     (sp = 0 \<and> rv = 0 \<longrightarrow> cell_at (heap s' ! df') ''roas'' i = Some (F (Fin 0)))"
proof -
  from num obtain fc fi fs fr where cols:
    "getitem (heap s ! df) ''clicks'' = Inr (map F fc)"
    "getitem (heap s ! df) ''impression'' = Inr (map F fi)"
    "getitem (heap s ! df) ''spend'' = Inr (map F fs)"
    "getitem (heap s ! df) ''attributed revenue'' = Inr (map F fr)"
    by (meson numeric_getitem)
  have kc: "i < length fc" "fc ! i = Fin c"
    using cell_at_getitem [OF cols(1) row(1)] by auto
  have ki: "i < length fi" "fi ! i = Fin m"
    using cell_at_getitem [OF cols(2) row(2)] by auto
  have ks: "i < length fs" "fs ! i = Fin sp"
    using cell_at_getitem [OF cols(3) row(3)] by auto
  have kr: "i < length fr" "fr ! i = Fin rv"
    using cell_at_getitem [OF cols(4) row(4)] by auto
  let ?df' = "length (heap s)"
  let ?kpis = "[(''ctr'', map (\<lambda>x. F (fl_mul x (Fin 100))) (map2 fl_div fc fi)),
         (''cpc'', map F (map2 fl_div fs fc)),
         (''cpm'', map F (map2 fl_div fs (map (\<lambda>x. fl_div x (Fin 1000)) fi))),
         (''roas'', map F (map2 fl_div fr fs))]"
  let ?new = "add_kpis (\<lambda>vs. s_round2 (s_fillna0 vs)) ?kpis (heap s ! df)"
  let ?s' = "s\<lparr>heap := heap s @ [?new]\<rparr>"
  have run: "calculate_platform_kpis df s = (Inr ?df', ?s')"
    by (simp add: calculate_platform_kpis_eq [OF a] platform_kpis_numeric [OF cols])
  have new: "heap ?s' ! ?df' = ?new" by simp
  have ctr: "0 < m \<Longrightarrow> cell_at ?new ''ctr'' i =
      Some (F (fl_round2 (fl_mul (b64 (c / m)) (Fin 100))))"
    using kc ki by (simp add: add_kpis_def s_round2_def s_fillna0_def fillna0_cell_F)
  have cpc: "0 < c \<Longrightarrow> cell_at ?new ''cpc'' i = Some (F (fl_round2 (b64 (sp / c))))"
    using kc ks by (simp add: add_kpis_def s_round2_def s_fillna0_def fillna0_cell_F)
  have cpm: "0 < m \<Longrightarrow> b64 (m / 1000) \<noteq> Fin 0 \<Longrightarrow> cell_at ?new ''cpm'' i =
      Some (F (fl_round2 (fl_div (Fin sp) (b64 (m / 1000)))))"
    using ks ki
    by (simp add: add_kpis_def s_round2_def s_fillna0_def fillna0_cell_F fl_div_Fin_NaN)
  have roas: "0 < sp \<Longrightarrow> cell_at ?new ''roas'' i = Some (F (fl_round2 (b64 (rv / sp))))"
    using ks kr by (simp add: add_kpis_def s_round2_def s_fillna0_def fillna0_cell_F)
  have roas0: "sp = 0 \<and> rv = 0 \<Longrightarrow> cell_at ?new ''roas'' i = Some (F (Fin 0))"
    using ks kr by (simp add: add_kpis_def s_round2_def s_fillna0_def)
  show ?thesis
  proof (intro exI conjI impI)
    show "calculate_platform_kpis df s = (Inr ?df', ?s')" by (rule run)
  qed (simp_all only: new ctr cpc cpm roas roas0 simp_thms)
qed

text \<open>
  On the row with 23 clicks, 160 impressions, a spend of 40 and an attributed revenue of 23
  the columns hold the float64 numbers nearest to 14.37, 1.74, 250 and 0.57: the float
  quotient \<open>23 / 160 * 100\<close> lies just below 14.375, and \<open>23 / 40\<close> just below 0.575.
\<close>

theorem platform_kpis_rounded_witness:
  "(0::nat) < length (heap (init\<lparr>heap := [example_ties]\<rparr>)) \<and>
   is_b64 23 \<and> is_b64 160 \<and> is_b64 40 \<and> (0::real) < 160 \<and> b64 (160 / 1000) \<noteq> Fin 0 \<and>
   (\<exists>df' s'. calculate_platform_kpis 0 (init\<lparr>heap := [example_ties]\<rparr>) = (Inr df', s') \<and>
      cell_at (heap s' ! df') ''ctr'' 0 = Some (F (b64 (1437 / 100))) \<and>
      cell_at (heap s' ! df') ''cpc'' 0 = Some (F (b64 (174 / 100))) \<and>
      cell_at (heap s' ! df') ''cpm'' 0 = Some (F (Fin 250)) \<and>
      cell_at (heap s' ! df') ''roas'' 0 = Some (F (b64 (57 / 100)))) \<and>
   b64 (1437 / 100) = Fin (8089590830664253 / 562949953421312) \<and>
   b64 (174 / 100) = Fin (7836263351624663 / 4503599627370496) \<and>
   b64 (57 / 100) = Fin (5134103575202365 / 9007199254740992)"
proof -
  let ?s = "init\<lparr>heap := [example_ties]\<rparr>"
  have a: "0 < length (heap ?s)" by simp
  have f: "heap ?s ! 0 = example_ties" by simp
  have num: "numeric (heap ?s ! 0) ''clicks''" "numeric (heap ?s ! 0) ''impression''"
    "numeric (heap ?s ! 0) ''spend''" "numeric (heap ?s ! 0) ''attributed revenue''"
    unfolding f by (simp_all add: numeric_def example_ties_def)
  have row: "cell_at (heap ?s ! 0) ''clicks'' 0 = Some (F (Fin 23))"
    "cell_at (heap ?s ! 0) ''impression'' 0 = Some (F (Fin 160))"
    "cell_at (heap ?s ! 0) ''spend'' 0 = Some (F (Fin 40))"
    "cell_at (heap ?s ! 0) ''attributed revenue'' 0 = Some (F (Fin 23))"
    unfolding f by (simp_all add: cell_at_def example_ties_def)
  have rep: "is_b64 23" "is_b64 160" "is_b64 40" by simp_all
  have r: "fl_round2 (fl_mul (b64 (23 / 160)) (Fin 100)) = b64 (1437 / 100)"
    "fl_round2 (b64 (40 / 23)) = b64 (174 / 100)"
    "fl_round2 (fl_div (Fin 40) (b64 (160 / 1000))) = Fin 250"
    "fl_round2 (b64 (23 / 40)) = b64 (57 / 100)"
    "b64 (160 / 1000) \<noteq> Fin 0"
    "b64 (1437 / 100) = Fin (8089590830664253 / 562949953421312)"
    "b64 (174 / 100) = Fin (7836263351624663 / 4503599627370496)"
    "b64 (57 / 100) = Fin (5134103575202365 / 9007199254740992)"
    by (simp_all add: fl_round2_def kpi_values rint_def)
  from platform_kpis_rounded [OF a num row rep(1,2,3,1)] a rep r(5-8) show ?thesis
    unfolding r(1-4) by simp
qed

subsection \<open>What the KPI computation leaves alone\<close>

lemma only_allocates_refl [simp]: "only_allocates s s"
  by (simp add: only_allocates_def)

lemma only_allocates_trans:
  "only_allocates s s1 \<Longrightarrow> only_allocates s1 s2 \<Longrightarrow> only_allocates s s2"
proof -
  assume a: "only_allocates s s1" and b: "only_allocates s1 s2"
  from a have l1: "length (heap s) \<le> length (heap s1)" and t1: "take (length (heap s)) (heap s1) = heap s"
    by (simp_all add: only_allocates_def)
  from b have l2: "length (heap s1) \<le> length (heap s2)" and t2: "take (length (heap s1)) (heap s2) = heap s1"
    by (simp_all add: only_allocates_def)
  have "take (length (heap s)) (heap s2) = take (length (heap s)) (take (length (heap s1)) (heap s2))"
    using l1 by (simp add: min_def)
  then have "take (length (heap s)) (heap s2) = heap s"
    by (simp only: t2 t1)
  with a b l1 l2 show ?thesis
    by (simp add: only_allocates_def)
qed

lemma only_allocates_append [simp]: "only_allocates s (s\<lparr>heap := heap s @ ext\<rparr>)"
  by (simp add: only_allocates_def)

lemma only_allocates_nth:
  "only_allocates s s' \<Longrightarrow> a < length (heap s) \<Longrightarrow> heap s' ! a = heap s ! a"
  unfolding only_allocates_def by (metis nth_take)

lemma only_allocates_length:
  "only_allocates s s' \<Longrightarrow> a < length (heap s) \<Longrightarrow> a < length (heap s')"
  unfolding only_allocates_def by simp

lemma calculate_platform_kpis_allocates:
  "a < length (heap s) \<Longrightarrow> calculate_platform_kpis a s = (r, s') \<Longrightarrow> only_allocates s s'"
  by (auto simp: calculate_platform_kpis_eq split: sum.splits)

lemma kpis_loop_allocates:
  "list_all (\<lambda>(platform, df). df < length (heap s)) items \<Longrightarrow>
   kpis_loop items acc s = (r, s') \<Longrightarrow> only_allocates s s'"
proof (induction items arbitrary: acc s)
  case Nil
  then show ?case by simp
next
  case (Cons item items)
  obtain platform df where item: "item = (platform, df)" by (cases item)
  obtain r1 s1 where step: "calculate_platform_kpis df s = (r1, s1)"
    by (cases "calculate_platform_kpis df s")
  from Cons.prems(1) have df: "df < length (heap s)" by (simp add: item)
  have a1: "only_allocates s s1"
    by (rule calculate_platform_kpis_allocates [OF df step])
  show ?case
  proof (cases r1)
    case (Inl e)
    with Cons.prems(2) step item have "s' = s1" by simp
    with a1 show ?thesis by simp
  next
    case (Inr b)
    with Cons.prems(2) step item
    have rest: "kpis_loop items (acc @ [b]) s1 = (r, s')" by simp
    have "list_all (\<lambda>(platform, df). df < length (heap s1)) items"
      using Cons.prems(1) a1
      by (auto simp: list_all_iff dest: only_allocates_length)
    from Cons.IH [OF this rest] a1 show ?thesis
      by (blast intro: only_allocates_trans)
  qed
qed

lemma calculate_marketing_kpis_allocates:
  assumes "list_all (\<lambda>(platform, df). df < length (heap s)) (marketing_dfs s)"
    and "calculate_marketing_kpis s = (r, s')"
  shows "only_allocates s s'"
proof -
  obtain r1 s1 where loop: "kpis_loop (marketing_dfs s) [] s = (r1, s1)"
    by (cases "kpis_loop (marketing_dfs s) [] s")
  have a1: "only_allocates s s1"
    by (rule kpis_loop_allocates [OF assms(1) loop])
  have "only_allocates s1 s'"
    using assms(2) loop
    by (auto simp: calculate_marketing_kpis_def alloc_def split: sum.splits)
  with a1 show ?thesis by (rule only_allocates_trans)
qed

text \<open>
  Claim C9: \<open>calculate_marketing_kpis\<close> leaves the dictionary \<open>marketing_dfs\<close> and every
  dataframe it refers to as they were, whatever it returns or raises: the KPI columns are
  written to copies.
\<close>

theorem marketing_dfs_unchanged:
  assumes "list_all (\<lambda>(platform, df). df < length (heap s)) (marketing_dfs s)"
    and "calculate_marketing_kpis s = (r, s')"
  shows "marketing_dfs s' = marketing_dfs s \<and>
         list_all (\<lambda>(platform, df). heap s' ! df = heap s ! df) (marketing_dfs s)"
proof -
  have al: "only_allocates s s'"
    by (rule calculate_marketing_kpis_allocates [OF assms])
  then have "marketing_dfs s' = marketing_dfs s" by (simp add: only_allocates_def)
  moreover have "list_all (\<lambda>(platform, df). heap s' ! df = heap s ! df) (marketing_dfs s)"
    using assms(1) al by (auto simp: list_all_iff dest: only_allocates_nth)
  ultimately show ?thesis by simp
qed

theorem marketing_dfs_unchanged_witness:
  "list_all (\<lambda>(platform, df). df < length (heap example_state)) (marketing_dfs example_state) \<and>
   marketing_dfs (snd (calculate_marketing_kpis example_state)) = [(''Facebook'', 0)] \<and>
   heap (snd (calculate_marketing_kpis example_state)) ! 0 = example_marketing"
proof -
  have h: "list_all (\<lambda>(platform, df). df < length (heap example_state))
             (marketing_dfs example_state)"
    by (simp add: example_state_def)
  have e: "calculate_marketing_kpis example_state =
      (fst (calculate_marketing_kpis example_state), snd (calculate_marketing_kpis example_state))"
    by simp
  from marketing_dfs_unchanged [OF h e] h show ?thesis
    by (simp add: example_state_def)
qed

subsection \<open>Coercion of the numeric columns\<close>

lemma is_float_to_numeric [simp]: "is_float (to_numeric_coerce parse c)"
  by (cases c) (auto split: option.splits)





subsection \<open>Loading tags the rows with their platform\<close>

lemma nrows_setitem_replicate:
  "nrows (setitem df c (replicate (nrows df) v)) = nrows df"
  by (cases df) (auto simp: setitem_def nrows_def)

lemma tagged_setitem:
  "tagged platform (setitem df ''platform'' (replicate (nrows df) (Str platform)))"
  using nrows_setitem_replicate [of df "''platform''" "Str platform"]
  by (simp add: tagged_def setitem_def list_all_iff)

lemma load_platforms_inv:
  assumes "load_platforms fs ps s = (Inr u, s')" and "distinct ps"
  shows "length (heap s) \<le> length (heap s') \<and>
         (\<forall>a<length (heap s). heap s' ! a = heap s ! a) \<and>
         (\<forall>p. p \<notin> set ps \<longrightarrow> map_of (marketing_dfs s') p = map_of (marketing_dfs s) p) \<and>
         (\<forall>p\<in>set ps. \<exists>df. map_of (marketing_dfs s') p = Some df \<and> df < length (heap s') \<and>
             tagged p (heap s' ! df))"
  using assms
proof (induction ps arbitrary: s)
  case Nil
  then show ?case by simp
next
  case (Cons p ps)
  from Cons.prems(1) obtain f where f: "fs (''dataset/'' @ p @ ''.csv'') = Inr f"
    by (cases "fs (''dataset/'' @ p @ ''.csv'')") (auto simp: read_csv_def)
  let ?df = "length (heap s)"
  let ?f' = "setitem f ''platform'' (replicate (nrows f) (Str p))"
  let ?s3 = "s\<lparr>heap := heap s @ [?f'], marketing_dfs := dict_set (marketing_dfs s) p ?df\<rparr>"
  have rest: "load_platforms fs ps ?s3 = (Inr u, s')"
    using Cons.prems(1) f by (simp add: read_csv_def alloc_def setitem_at_def)
  have d: "distinct ps" "p \<notin> set ps" using Cons.prems(2) by simp_all
  note ih = Cons.IH [OF rest d(1)]
  have len: "length (heap s) \<le> length (heap s')" using ih by simp
  have old: "\<forall>a<length (heap s). heap s' ! a = heap s ! a"
    using ih by (simp add: nth_append)
  have other: "\<forall>q. q \<notin> set (p # ps) \<longrightarrow> map_of (marketing_dfs s') q = map_of (marketing_dfs s) q"
    using ih by simp
  have here: "map_of (marketing_dfs s') p = Some ?df"
    using ih d(2) by simp
  have fr: "heap s' ! ?df = ?f'" "?df < length (heap s')"
    using ih by (simp_all add: nth_append)
  have p: "\<exists>df. map_of (marketing_dfs s') p = Some df \<and> df < length (heap s') \<and>
             tagged p (heap s' ! df)"
    using here fr tagged_setitem [of p f] by simp
  have ps: "\<forall>q\<in>set ps. \<exists>df. map_of (marketing_dfs s') q = Some df \<and> df < length (heap s') \<and>
             tagged q (heap s' ! df)"
    using ih by blast
  show ?case using len old other p ps by simp
qed

text \<open>
  Claim C7: when \<open>load_data\<close> succeeded (it returned the loaded dataframes, not the empty
  dictionary), \<open>marketing_dfs\<close> holds a dataframe for each of Facebook, Google and TikTok, and
  the column \<open>platform\<close> of that dataframe holds the platform's name in every row.
\<close>

theorem load_data_tags_platform:
  assumes "load_data fs s = (data, s')" and "data \<noteq> []" and "platform \<in> set PLATFORMS"
  shows "\<exists>df. map_of (marketing_dfs s') platform = Some df \<and> df < length (heap s') \<and>
           tagged platform (heap s' ! df)"
proof -
  from assms(1,2) obtain b s1 where b: "read_csv fs ''dataset/business.csv'' s = (Inr b, s1)"
    by (cases "read_csv fs ''dataset/business.csv'' s"; cases "fst (read_csv fs ''dataset/business.csv'' s)")
       (auto simp: load_data_def)
  from assms(1,2) b obtain u where
    l: "load_platforms fs PLATFORMS (s1\<lparr>business_df := Some b\<rparr>) = (Inr u, s')"
    by (cases "load_platforms fs PLATFORMS (s1\<lparr>business_df := Some b\<rparr>)";
        cases "fst (load_platforms fs PLATFORMS (s1\<lparr>business_df := Some b\<rparr>))")
       (auto simp: load_data_def)
  have "distinct PLATFORMS" by (simp add: PLATFORMS_def)
  from load_platforms_inv [OF l this] assms(3) show ?thesis by blast
qed

theorem load_data_tags_platform_witness:
  "fst (load_data example_fs init) \<noteq> [] \<and> ''Google'' \<in> set PLATFORMS \<and>
   (\<exists>df. map_of (marketing_dfs (snd (load_data example_fs init))) ''Google'' = Some df \<and>
      df < length (heap (snd (load_data example_fs init))) \<and>
      tagged ''Google'' (heap (snd (load_data example_fs init)) ! df))"
proof -
  have e: "load_data example_fs init = (fst (load_data example_fs init), snd (load_data example_fs init))"
    by simp
  have h: "fst (load_data example_fs init) \<noteq> []" "''Google'' \<in> set PLATFORMS"
    by (simp_all add: load_data_def read_csv_def example_fs_def alloc_def init_def PLATFORMS_def
        setitem_at_def)
  from load_data_tags_platform [OF e h] h show ?thesis by simp
qed

subsection \<open>The summary of a combined table\<close>







subsection \<open>The combined table, column by column\<close>

lemma set_uniq [simp]: "set (uniq xs) = set xs"
  by (simp add: uniq_def)

lemma distinct_uniq [simp]: "distinct (uniq xs)"
  by (simp add: uniq_def)

lemma set_sort_cells [simp]: "set (sort_cells xs) = set xs"
  by (simp add: sort_cells_def)

lemma distinct_sort_cells [simp]: "distinct (sort_cells xs) = distinct xs"
  by (simp add: sort_cells_def)

lemma set_sort_keys [simp]: "set (sort_keys xs) = set xs"
  by (simp add: sort_keys_def)

lemma distinct_sort_keys [simp]: "distinct (sort_keys xs) = distinct xs"
  by (simp add: sort_keys_def)


lemma set_group_keys:
  "set (group_keys dates platforms) =
     {(d, p). (d, p) \<in> set (zip dates platforms) \<and> \<not> is_na d \<and> \<not> is_na p}"
  by (auto simp: group_keys_def)

















lemma emap_Inr: "emap f xs = Inr ys \<Longrightarrow> list_all2 (\<lambda>x y. f x = Inr y) xs ys"
proof (induction xs arbitrary: ys)
  case Nil
  then show ?case by simp
next
  case (Cons x xs)
  then show ?case
    by (cases "f x"; cases "emap f xs") auto
qed



















subsection \<open>The names of the platform columns\<close>








subsection \<open>Rows, dates and zero filling of the combined table\<close>













lemma length_s_round2 [simp]: "length (s_round2 xs) = length xs"
  by (simp add: s_round2_def)

lemma length_s_fillna0 [simp]: "length (s_fillna0 xs) = length xs"
  by (simp add: s_fillna0_def)























lemma fillna0_cell_not_nan [simp]: "fillna0_cell x \<noteq> F NaN"
  by (cases x rule: fillna0_cell.cases) auto

lemma fillna0_cell_not_nan' [simp]: "F NaN \<noteq> fillna0_cell x"
  using fillna0_cell_not_nan [of x] by metis

lemma combined_cell_not_nan [simp]: "combined_cell how dates platforms xs d p \<noteq> F NaN"
  by (simp add: combined_cell_def)

lemma combined_cell_not_nan' [simp]: "F NaN \<noteq> combined_cell how dates platforms xs d p"
  by (simp add: combined_cell_def)

lemma combined_cell_zero:
  "(d, p) \<notin> set (zip dates platforms) \<Longrightarrow> combined_cell how dates platforms xs d p = F (Fin 0)"
  by (simp add: combined_cell_def set_group_keys)

lemma combined_cell_nonzero:
  "combined_cell how dates platforms xs d p \<noteq> F (Fin 0) \<Longrightarrow> (d, p) \<in> set (zip dates platforms)"
  using combined_cell_zero by blast






lemma is_float_fillna0 [simp]: "is_float (fillna0_cell (F x))"
  by (cases x) simp_all

lemma is_float_round_fill [simp]: "is_float (round2_cell (fillna0_cell (F x)))"
  by (cases x) simp_all

lemma is_float_fill_round [simp]: "is_float (fillna0_cell (round2_cell (F x)))"
  by simp





















end
